theory Spec2Isabelle
  imports Complex_Main
begin

section \<open>Numbers\<close>

text \<open>
  The simulator computes with Python floats. They are modelled as real numbers, with no
  overflow; the correlations are computed without rounding, the coefficient \<open>kc\<close> with
  the rounding of its quotient and product to the nearest double (see \<open>to_double\<close>).
  Python's power operator leaves the reals on a negative base with a fractional exponent,
  where it returns a complex number, so a computed value is either a float or a complex
  number.
\<close>

datatype pynum = PyFloat real | PyComplex complex

datatype py_error = TypeError | ValueError

text \<open>
  \<open>x ** y\<close> for a float exponent \<open>y\<close> that is positive and not an integer; the source
  raises only to the constants 0.8, 0.5, 0.6 and 1/3. A base that is not negative gives the
  real power (\<open>0 ** y\<close> is 0), a negative base gives the complex number of modulus
  \<open>\<bar>x\<bar> ** y\<close> and argument \<open>pi * y\<close>.
\<close>

definition py_pow :: "real \<Rightarrow> real \<Rightarrow> pynum" where
  "py_pow x y =
     (if x < 0 then PyComplex (of_real (\<bar>x\<bar> powr y) * cis (pi * y))
      else PyFloat (x powr y))"

fun to_complex :: "pynum \<Rightarrow> complex" where
  "to_complex (PyFloat r) = of_real r"
| "to_complex (PyComplex z) = z"

text \<open>\<open>a * b\<close> and \<open>a + b\<close>: a float unless one operand is complex.\<close>

fun py_mul :: "pynum \<Rightarrow> pynum \<Rightarrow> pynum" where
  "py_mul (PyFloat a) (PyFloat b) = PyFloat (a * b)"
| "py_mul a b = PyComplex (to_complex a * to_complex b)"

fun py_add :: "pynum \<Rightarrow> pynum \<Rightarrow> pynum" where
  "py_add (PyFloat a) (PyFloat b) = PyFloat (a + b)"
| "py_add a b = PyComplex (to_complex a + to_complex b)"

section \<open>The Sherwood correlations\<close>

text \<open>
  \<open>calcular_sherwood(geometria, Re, Sc, usar_DAB)\<close>. The Reynolds number is written
  \<open>Rey\<close>, since \<open>Re\<close> is the real part of a complex number in HOL.
\<close>

definition calcular_sherwood :: "string \<Rightarrow> real \<Rightarrow> real \<Rightarrow> bool \<Rightarrow> pynum" where
  "calcular_sherwood geometria Rey Sc usar_DAB =
     (if \<not> usar_DAB then PyFloat 0.0
      else if geometria = ''placa'' then
        py_mul (py_mul (PyFloat 0.037) (py_pow Rey 0.8)) (py_pow Sc (1/3))
      else if geometria = ''tubo'' then
        py_mul (py_mul (PyFloat 0.023) (py_pow Rey 0.8)) (py_pow Sc (1/3))
      else if geometria = ''esfera'' then
        py_add (PyFloat 2.0) (py_mul (py_mul (PyFloat 0.6) (py_pow Rey 0.5)) (py_pow Sc (1/3)))
      else if geometria = ''gota'' then
        py_add (PyFloat 2.0) (py_mul (py_mul (PyFloat 0.6) (py_pow Rey 0.5)) (py_pow Sc (1/3)))
      else if geometria = ''lecho empacado'' then
        py_mul (py_mul (PyFloat 1.15) (py_pow Rey 0.6)) (py_pow Sc (1/3))
      else PyFloat 0.0)"

section \<open>Formatting numbers\<close>

text \<open>
  The f-string conversions \<open>.0f\<close>, \<open>.1f\<close>, \<open>.2f\<close> and \<open>.2e\<close> of the source. The digits
  are those of the real number rounded half to even at the last place printed, which is
  what Python prints for a float whose value is that real.
\<close>

definition digit_char :: "nat \<Rightarrow> char" where
  "digit_char n = ''0123456789'' ! n"

function str_nat :: "nat \<Rightarrow> string" where
  "str_nat n = (if n < 10 then [digit_char n] else str_nat (n div 10) @ [digit_char (n mod 10)])"
  by pat_completeness auto
termination
  by (relation "measure id") auto

declare str_nat.simps [simp del]

definition zfill :: "nat \<Rightarrow> string \<Rightarrow> string" where
  "zfill w s = replicate (w - length s) (CHR ''0'') @ s"

definition round_half_even :: "real \<Rightarrow> int" where
  "round_half_even y =
     (let f = \<lfloor>y\<rfloor>; r = y - of_int f
      in if r < 1/2 then f else if 1/2 < r then f + 1 else if even f then f else f + 1)"

text \<open>\<open>m\<close> scaled by \<open>10 ^ d\<close>, printed with \<open>d\<close> digits after the point.\<close>

definition fixed_digits :: "nat \<Rightarrow> nat \<Rightarrow> string" where
  "fixed_digits d m =
     str_nat (m div 10 ^ d) @ (if d = 0 then [] else ''.'' @ zfill d (str_nat (m mod 10 ^ d)))"

definition fmt_f :: "nat \<Rightarrow> real \<Rightarrow> string" where
  "fmt_f d x =
     (if x < 0 then ''-'' else []) @ fixed_digits d (nat (round_half_even (\<bar>x\<bar> * 10 ^ d)))"

definition fmt_e :: "nat \<Rightarrow> real \<Rightarrow> string" where
  "fmt_e d x =
     (let e0 = (if x = 0 then 0 else \<lfloor>log 10 \<bar>x\<bar>\<rfloor>);
          m0 = nat (round_half_even (\<bar>x\<bar> / 10 powi e0 * 10 ^ d));
          carry = (m0 = 10 ^ (d + 1));
          m = (if carry then 10 ^ d else m0);
          e = (if carry then e0 + 1 else e0)
      in (if x < 0 then ''-'' else []) @ fixed_digits d m @ ''e''
         @ (if e < 0 then ''-'' else ''+'') @ zfill 2 (str_nat (nat \<bar>e\<bar>)))"

text \<open>A complex number prints its real part, the sign of its imaginary part, and \<open>j\<close>.\<close>

fun py_fmt_f :: "nat \<Rightarrow> pynum \<Rightarrow> string" where
  "py_fmt_f d (PyFloat x) = fmt_f d x"
| "py_fmt_f d (PyComplex z) =
     fmt_f d (Re z) @ (if Im z < 0 then ''-'' else ''+'') @ fmt_f d \<bar>Im z\<bar> @ ''j''"

fun py_fmt_e :: "nat \<Rightarrow> pynum \<Rightarrow> string" where
  "py_fmt_e d (PyFloat x) = fmt_e d x"
| "py_fmt_e d (PyComplex z) =
     fmt_e d (Re z) @ (if Im z < 0 then ''-'' else ''+'') @ fmt_e d \<bar>Im z\<bar> @ ''j''"

text \<open>\<open>str.capitalize\<close> on ASCII text: the first letter upper case, the others lower case.\<close>

definition lower_case :: string where
  "lower_case = ''abcdefghijklmnopqrstuvwxyz''"

definition upper_case :: string where
  "upper_case = ''ABCDEFGHIJKLMNOPQRSTUVWXYZ''"

definition to_upper :: "char \<Rightarrow> char" where
  "to_upper c = (case map_of (zip lower_case upper_case) c of Some u \<Rightarrow> u | None \<Rightarrow> c)"

definition to_lower :: "char \<Rightarrow> char" where
  "to_lower c = (case map_of (zip upper_case lower_case) c of Some l \<Rightarrow> l | None \<Rightarrow> c)"

fun capitalize :: "string \<Rightarrow> string" where
  "capitalize [] = []"
| "capitalize (c # cs) = to_upper c # map to_lower cs"

section \<open>Rounding to a double\<close>

text \<open>
  The double nearest to a real number, ties to the even significand: 53 significant bits
  at the exponent of the number, and the fixed spacing \<open>2 ** -1074\<close> of the subnormal
  numbers below \<open>2 ** -1022\<close>. There is no overflow to infinity. A float literal of the
  source, and a number that arrives from the browser, is the double nearest to its decimal
  text.
\<close>

definition to_double :: "real \<Rightarrow> real" where
  "to_double x =
     (if x = 0 then 0
      else let e = max \<lfloor>log 2 \<bar>x\<bar>\<rfloor> (- 1022) - 52;
               m = round_half_even (\<bar>x\<bar> / 2 powi e)
           in sgn x * of_int m * 2 powi e)"

text \<open>\<open>a * b\<close> and \<open>a / b\<close> on doubles, for a divisor that is not zero.\<close>

definition double_mul :: "real \<Rightarrow> real \<Rightarrow> real" where
  "double_mul a b = to_double (a * b)"

definition double_div :: "real \<Rightarrow> real \<Rightarrow> real" where
  "double_div a b = to_double (a / b)"

fun py_mul_rounded :: "pynum \<Rightarrow> pynum \<Rightarrow> pynum" where
  "py_mul_rounded (PyFloat a) (PyFloat b) = PyFloat (double_mul a b)"
| "py_mul_rounded a b = PyComplex (to_complex a * to_complex b)"

section \<open>The results callback\<close>

text \<open>
  The interpretation is either the fixed warning or the list of three statements. Each
  constructor of \<open>parte\<close> stands for one f-string template of the source and carries the
  text interpolated into it: the formatted Reynolds or Schmidt number, or the selected
  combination and the capitalized geometry.
\<close>

datatype combinacion =
    Conveccion_forzada_dominante
  | Difusion_lenta_dominante
  | Transferencia_combinada

datatype parte =
    Re_alto string
  | Re_bajo string
  | Re_moderado string
  | Sc_alto string
  | Sc_bajo string
  | Sc_moderado string
  | Combinacion_actual combinacion string

datatype interpretacion = Advertencia | Lista "parte list"

text \<open>
  What the callback returns, one field for each of its three outputs (the strings
  \<open>sh_str\<close> and \<open>kc_str\<close> and the interpretation), together with the values of its
  locals \<open>Sh\<close> and \<open>kc\<close> that the strings are formatted from.
\<close>

record resultados =
  val_Sh :: pynum
  val_kc :: pynum
  output_sh :: string
  output_kc :: string
  output_interpretacion :: interpretacion

text \<open>Ordering a complex number against a float raises \<open>TypeError\<close>.\<close>

fun py_gt :: "pynum \<Rightarrow> real \<Rightarrow> py_error + bool" where
  "py_gt (PyFloat x) y = Inr (y < x)"
| "py_gt (PyComplex z) y = Inl TypeError"

fun py_lt :: "pynum \<Rightarrow> real \<Rightarrow> py_error + bool" where
  "py_lt (PyFloat x) y = Inr (x < y)"
| "py_lt (PyComplex z) y = Inl TypeError"

text \<open>The last lines of the callback: the two values formatted for display.\<close>

definition formatear :: "pynum \<Rightarrow> pynum \<Rightarrow> interpretacion \<Rightarrow> resultados" where
  "formatear Sh kc interp =
     \<lparr>val_Sh = Sh, val_kc = kc, output_sh = py_fmt_f 2 Sh, output_kc = py_fmt_e 2 kc,
      output_interpretacion = interp\<rparr>"

text \<open>
  The coefficient: \<open>L_caracteristica = 1.0\<close> and \<open>kc = Sh * (DAB / L_caracteristica)\<close>,
  the quotient and the product rounded as double arithmetic rounds them.
\<close>

definition coeficiente :: "pynum \<Rightarrow> real \<Rightarrow> pynum" where
  "coeficiente Sh DAB =
     (let L_caracteristica = 1.0
      in py_mul_rounded Sh (PyFloat (double_div DAB L_caracteristica)))"

definition actualizar_resultados ::
  "string \<Rightarrow> real \<Rightarrow> real \<Rightarrow> string list \<Rightarrow> real option \<Rightarrow> py_error + resultados" where
  "actualizar_resultados geometria Rey Sc checklist_dab DAB =
     (let usar_DAB = (''DAB_ON'' \<in> set checklist_dab);
          kc = PyFloat 0.0
      in if \<not> usar_DAB \<or> (case DAB of None \<Rightarrow> True | Some d \<Rightarrow> d \<le> 0) then
           Inr (formatear (PyFloat 0.0) kc Advertencia)
         else
           let Sh = calcular_sherwood geometria Rey Sc usar_DAB;
               kc = coeficiente Sh (the DAB);
               parte_Re =
                 (if Rey > 5000 then Re_alto (fmt_f 0 Rey)
                  else if Rey < 500 then Re_bajo (fmt_f 0 Rey)
                  else Re_moderado (fmt_f 0 Rey));
               parte_Sc =
                 (if Sc > 1000 then Sc_alto (fmt_f 0 Sc)
                  else if Sc < 1 then Sc_bajo (fmt_f 1 Sc)
                  else Sc_moderado (fmt_f 1 Sc));
               final = (\<lambda>comb. Inr (formatear Sh kc
                 (Lista [parte_Re, parte_Sc, Combinacion_actual comb (capitalize geometria)])))
           in case py_gt Sh 1000 of
                Inl e \<Rightarrow> Inl e
              | Inr alto \<Rightarrow>
                  if alto \<and> Rey > 5000 then final Conveccion_forzada_dominante
                  else (case py_lt Sh 100 of
                          Inl e \<Rightarrow> Inl e
                        | Inr bajo \<Rightarrow>
                            if bajo \<and> Sc > 1000 then final Difusion_lenta_dominante
                            else final Transferencia_combinada))"

section \<open>Parsing numbers\<close>

text \<open>
  \<open>float(s)\<close> on an ASCII string. Besides the reals, a Python float is one of the
  infinities or not-a-number, which the words \<open>inf\<close>, \<open>infinity\<close> and \<open>nan\<close> denote.
\<close>

datatype pyfloat = Finite real | PosInf | NegInf | NaN

definition is_space :: "char \<Rightarrow> bool" where
  "is_space c =
     (c = CHR '' '' \<or> c = CHR 0x09 \<or> c = CHR 0x0A \<or> c = CHR 0x0B \<or> c = CHR 0x0C \<or> c = CHR 0x0D)"

definition is_digit :: "char \<Rightarrow> bool" where
  "is_digit c = (48 \<le> (of_char c :: nat) \<and> (of_char c :: nat) \<le> 57)"

definition digit_val :: "char \<Rightarrow> nat" where
  "digit_val c = (of_char c :: nat) - 48"

definition py_strip :: "string \<Rightarrow> string" where
  "py_strip s = rev (dropWhile is_space (rev (dropWhile is_space s)))"

text \<open>
  An underscore may stand between two digits and nowhere else; \<open>prev\<close> is the character
  before the rest. The result is the text without its underscores.
\<close>

fun remove_underscores :: "char \<Rightarrow> string \<Rightarrow> string option" where
  "remove_underscores prev [] = (if prev = CHR ''_'' then None else Some [])"
| "remove_underscores prev (c # cs) =
     (if c = CHR ''_'' then
        (if is_digit prev then remove_underscores c cs else None)
      else if prev = CHR ''_'' \<and> \<not> is_digit c then None
      else map_option ((#) c) (remove_underscores c cs))"

definition nat_of_digits :: "string \<Rightarrow> nat" where
  "nat_of_digits ds = foldl (\<lambda>a c. 10 * a + digit_val c) 0 ds"

text \<open>An optional sign: whether it is a minus, and the rest.\<close>

fun take_sign :: "string \<Rightarrow> bool \<times> string" where
  "take_sign [] = (False, [])"
| "take_sign (c # cs) =
     (if c = CHR ''-'' then (True, cs) else if c = CHR ''+'' then (False, cs) else (False, c # cs))"

text \<open>
  The exponent part, after the mantissa: nothing, or \<open>e\<close> or \<open>E\<close>, an optional sign and
  at least one digit, up to the end of the text.
\<close>

fun parse_exponent :: "string \<Rightarrow> int option" where
  "parse_exponent [] = Some 0"
| "parse_exponent (c # cs) =
     (if c = CHR ''e'' \<or> c = CHR ''E'' then
        (let (neg, ds) = take_sign cs
         in if ds \<noteq> [] \<and> list_all is_digit ds
            then Some (if neg then - int (nat_of_digits ds) else int (nat_of_digits ds))
            else None)
      else None)"

text \<open>
  An unsigned decimal number: digits, an optional point, digits, with a digit on at least
  one side of the point, and the exponent part.
\<close>

definition parse_decimal :: "string \<Rightarrow> real option" where
  "parse_decimal s =
     (let ip = takeWhile is_digit s;
          r1 = dropWhile is_digit s;
          has_point = (r1 \<noteq> [] \<and> hd r1 = CHR ''.'');
          fp = (if has_point then takeWhile is_digit (tl r1) else []);
          r2 = (if has_point then dropWhile is_digit (tl r1) else r1)
      in if ip = [] \<and> fp = [] then None
         else (case parse_exponent r2 of
                 None \<Rightarrow> None
               | Some e \<Rightarrow>
                   Some (of_nat (nat_of_digits (ip @ fp)) * 10 powi (e - int (length fp)))))"

definition py_float :: "string \<Rightarrow> py_error + pyfloat" where
  "py_float s =
     (case remove_underscores (CHR 0x00) (py_strip s) of
        None \<Rightarrow> Inl ValueError
      | Some t \<Rightarrow>
          (let (neg, u) = take_sign t;
               w = map to_lower u
           in if w = ''inf'' \<or> w = ''infinity'' then Inr (if neg then NegInf else PosInf)
              else if w = ''nan'' then Inr NaN
              else (case parse_decimal u of
                      None \<Rightarrow> Inl ValueError
                    | Some x \<Rightarrow> Inr (Finite (if neg then - x else x)))))"

section \<open>The plot callback\<close>

text \<open>Comparison, \<open>numpy.log10\<close>, addition and \<open>max\<close> on floats.\<close>

fun pf_less :: "pyfloat \<Rightarrow> pyfloat \<Rightarrow> bool" where
  "pf_less (Finite x) (Finite y) = (x < y)"
| "pf_less (Finite x) PosInf = True"
| "pf_less NegInf (Finite y) = True"
| "pf_less NegInf PosInf = True"
| "pf_less a b = False"

fun np_log10 :: "pyfloat \<Rightarrow> pyfloat" where
  "np_log10 (Finite x) = (if 0 < x then Finite (log 10 x) else if x = 0 then NegInf else NaN)"
| "np_log10 PosInf = PosInf"
| "np_log10 NegInf = NaN"
| "np_log10 NaN = NaN"

fun pf_add :: "pyfloat \<Rightarrow> pyfloat \<Rightarrow> pyfloat" where
  "pf_add (Finite x) (Finite y) = Finite (x + y)"
| "pf_add NaN b = NaN"
| "pf_add a NaN = NaN"
| "pf_add PosInf NegInf = NaN"
| "pf_add NegInf PosInf = NaN"
| "pf_add PosInf b = PosInf"
| "pf_add a PosInf = PosInf"
| "pf_add NegInf b = NegInf"
| "pf_add a NegInf = NegInf"

text \<open>\<open>max(a, b)\<close> keeps \<open>a\<close> unless \<open>b\<close> is greater.\<close>

definition py_max :: "pyfloat \<Rightarrow> pyfloat \<Rightarrow> pyfloat" where
  "py_max a b = (if pf_less a b then b else a)"

text \<open>
  The figure: the point plotted and the \<open>range\<close> of each axis, a pair of base-10
  exponents since both axes are logarithmic. The marker's label and the fixed styling are
  left out.
\<close>

record figura =
  punto_x :: pyfloat
  punto_y :: pyfloat
  rango_x :: "pyfloat \<times> pyfloat"
  rango_y :: "pyfloat \<times> pyfloat"

text \<open>
  The \<open>try\<close> block: both strings are converted, and a \<open>ValueError\<close> from either
  conversion replaces both values by the reference point. Any other error propagates.
\<close>

definition convertir :: "string \<Rightarrow> string \<Rightarrow> py_error + (pyfloat \<times> pyfloat)" where
  "convertir Sh_str kc_str =
     (case py_float Sh_str of
        Inl e \<Rightarrow> (if e = ValueError then Inr (Finite 1.0, Finite (1 / 10 ^ 10)) else Inl e)
      | Inr Sh \<Rightarrow>
          (case py_float kc_str of
             Inl e \<Rightarrow> (if e = ValueError then Inr (Finite 1.0, Finite (1 / 10 ^ 10)) else Inl e)
           | Inr kc \<Rightarrow> Inr (Sh, kc)))"

definition actualizar_grafica :: "string \<Rightarrow> string \<Rightarrow> py_error + figura" where
  "actualizar_grafica Sh_str kc_str =
     (case convertir Sh_str kc_str of
        Inl e \<Rightarrow> Inl e
      | Inr (Sh, kc) \<Rightarrow>
          (let sh_min = Finite 0.0;
               sh_max = Finite 4.3;
               kc_min = Finite (- 12.0);
               kc_max = Finite (- 3.0);
               sh_max = (if pf_less (Finite 0) Sh
                         then py_max sh_max (pf_add (np_log10 Sh) (Finite 0.5)) else sh_max);
               kc_max = (if pf_less (Finite 0) kc
                         then py_max kc_max (pf_add (np_log10 kc) (Finite 0.5)) else kc_max)
           in Inr \<lparr>punto_x = Sh, punto_y = kc,
                   rango_x = (sh_min, sh_max), rango_y = (kc_min, kc_max)\<rparr>))"

section \<open>Properties of the correlations\<close>

lemma py_pow_nonneg: "0 \<le> x \<Longrightarrow> py_pow x y = PyFloat (x powr y)"
  by (simp add: py_pow_def)

text \<open>
  On Reynolds and Schmidt numbers that are not negative, the only ones the sliders
  produce, every correlation is a real number.
\<close>

lemma calcular_sherwood_float:
  assumes "0 \<le> Rey" and "0 \<le> Sc"
  shows "calcular_sherwood geometria Rey Sc True =
     PyFloat (if geometria = ''placa'' then 0.037 * Rey powr 0.8 * Sc powr (1/3)
              else if geometria = ''tubo'' then 0.023 * Rey powr 0.8 * Sc powr (1/3)
              else if geometria = ''esfera'' then 2.0 + 0.6 * Rey powr 0.5 * Sc powr (1/3)
              else if geometria = ''gota'' then 2.0 + 0.6 * Rey powr 0.5 * Sc powr (1/3)
              else if geometria = ''lecho empacado'' then 1.15 * Rey powr 0.6 * Sc powr (1/3)
              else 0)"
  using assms by (simp add: calcular_sherwood_def py_pow_nonneg)

text \<open>
  Claim C1: with the diffusivity flag on, \<open>calcular_sherwood\<close> returns the formula of the
  table for each of the five geometries, for every Reynolds and Schmidt number, and 0.0,
  without an error, for every other geometry string.
\<close>

theorem calcular_sherwood_tabla:
  "calcular_sherwood ''placa'' Rey Sc True =
     py_mul (py_mul (PyFloat 0.037) (py_pow Rey 0.8)) (py_pow Sc (1/3))
   \<and> calcular_sherwood ''tubo'' Rey Sc True =
     py_mul (py_mul (PyFloat 0.023) (py_pow Rey 0.8)) (py_pow Sc (1/3))
   \<and> calcular_sherwood ''esfera'' Rey Sc True =
     py_add (PyFloat 2.0) (py_mul (py_mul (PyFloat 0.6) (py_pow Rey 0.5)) (py_pow Sc (1/3)))
   \<and> calcular_sherwood ''gota'' Rey Sc True =
     py_add (PyFloat 2.0) (py_mul (py_mul (PyFloat 0.6) (py_pow Rey 0.5)) (py_pow Sc (1/3)))
   \<and> calcular_sherwood ''lecho empacado'' Rey Sc True =
     py_mul (py_mul (PyFloat 1.15) (py_pow Rey 0.6)) (py_pow Sc (1/3))
   \<and> (geometria \<notin> {''placa'', ''tubo'', ''esfera'', ''gota'', ''lecho empacado''}
        \<longrightarrow> calcular_sherwood geometria Rey Sc True = PyFloat 0.0)
   \<and> (0 \<le> Rey \<and> 0 \<le> Sc \<longrightarrow>
        calcular_sherwood ''placa'' Rey Sc True = PyFloat (0.037 * Rey powr 0.8 * Sc powr (1/3))
      \<and> calcular_sherwood ''tubo'' Rey Sc True = PyFloat (0.023 * Rey powr 0.8 * Sc powr (1/3))
      \<and> calcular_sherwood ''esfera'' Rey Sc True =
          PyFloat (2.0 + 0.6 * Rey powr 0.5 * Sc powr (1/3))
      \<and> calcular_sherwood ''gota'' Rey Sc True =
          PyFloat (2.0 + 0.6 * Rey powr 0.5 * Sc powr (1/3))
      \<and> calcular_sherwood ''lecho empacado'' Rey Sc True =
          PyFloat (1.15 * Rey powr 0.6 * Sc powr (1/3)))"
  by (simp add: calcular_sherwood_def py_pow_nonneg)

theorem calcular_sherwood_tabla_witness:
  "calcular_sherwood ''esfera'' 1000 500 True =
     PyFloat (2.0 + 0.6 * 1000 powr 0.5 * 500 powr (1/3))
   \<and> calcular_sherwood ''placa'' 1000 500 True =
     PyFloat (0.037 * 1000 powr 0.8 * 500 powr (1/3))
   \<and> ''cilindro'' \<notin> {''placa'', ''tubo'', ''esfera'', ''gota'', ''lecho empacado''}
   \<and> calcular_sherwood ''cilindro'' 1000 500 True = PyFloat 0.0"
  using calcular_sherwood_tabla [of 1000 500 "''cilindro''"]
  by (simp add: py_pow_def)

text \<open>
  Claim C2: with the diffusivity flag off, \<open>calcular_sherwood\<close> returns 0.0 for every
  geometry, Reynolds number and Schmidt number.
\<close>

theorem calcular_sherwood_sin_DAB:
  "calcular_sherwood geometria Rey Sc False = PyFloat 0"
  by (simp add: calcular_sherwood_def)

section \<open>Properties of the results callback\<close>

lemma str_nat_digit: "n < 10 \<Longrightarrow> str_nat n = [digit_char n]"
  by (simp add: str_nat.simps)

lemma fmt_f_2_0: "fmt_f 2 0 = ''0.00''"
  by (simp add: fmt_f_def fixed_digits_def round_half_even_def zfill_def str_nat_digit
      digit_char_def)

lemma fmt_e_2_0: "fmt_e 2 0 = ''0.00e+00''"
  by (simp add: fmt_e_def fixed_digits_def round_half_even_def zfill_def str_nat_digit
      digit_char_def)

lemma formatear_cero:
  "formatear (PyFloat 0) (PyFloat 0) i =
     \<lparr>val_Sh = PyFloat 0, val_kc = PyFloat 0, output_sh = ''0.00'', output_kc = ''0.00e+00'',
      output_interpretacion = i\<rparr>"
  by (simp add: formatear_def fmt_f_2_0 fmt_e_2_0)

lemma guarda_sin_DAB:
  assumes "''DAB_ON'' \<notin> set checklist_dab \<or> DAB = None \<or> (\<exists>d. DAB = Some d \<and> d \<le> 0)"
  shows "actualizar_resultados geometria Rey Sc checklist_dab DAB =
     Inr \<lparr>val_Sh = PyFloat 0, val_kc = PyFloat 0, output_sh = ''0.00'',
          output_kc = ''0.00e+00'', output_interpretacion = Advertencia\<rparr>"
proof -
  have "''DAB_ON'' \<notin> set checklist_dab \<or> (case DAB of None \<Rightarrow> True | Some d \<Rightarrow> d \<le> 0)"
    using assms by (auto split: option.splits)
  then show ?thesis
    by (simp add: actualizar_resultados_def formatear_cero)
qed

text \<open>
  Claim C3: when the flag is off, or the diffusivity is absent, or it is not positive, the
  callback sets Sherwood and the coefficient to 0.0 and returns the fixed warning, whatever
  the geometry, the Reynolds number and the Schmidt number.
\<close>

theorem actualizar_resultados_sin_DAB:
  assumes "''DAB_ON'' \<notin> set checklist_dab \<or> DAB = None \<or> (\<exists>d. DAB = Some d \<and> d \<le> 0)"
  shows "actualizar_resultados geometria Rey Sc checklist_dab DAB =
     Inr \<lparr>val_Sh = PyFloat 0, val_kc = PyFloat 0, output_sh = ''0.00'',
          output_kc = ''0.00e+00'', output_interpretacion = Advertencia\<rparr>"
  using assms by (rule guarda_sin_DAB)

theorem actualizar_resultados_sin_DAB_witness:
  "actualizar_resultados ''esfera'' 1000 500 [] (Some (1 / 10 ^ 9)) =
     Inr \<lparr>val_Sh = PyFloat 0, val_kc = PyFloat 0, output_sh = ''0.00'',
          output_kc = ''0.00e+00'', output_interpretacion = Advertencia\<rparr>
   \<and> actualizar_resultados ''tubo'' 100 3000 [''DAB_ON''] None =
     Inr \<lparr>val_Sh = PyFloat 0, val_kc = PyFloat 0, output_sh = ''0.00'',
          output_kc = ''0.00e+00'', output_interpretacion = Advertencia\<rparr>
   \<and> actualizar_resultados ''placa'' 10000 1 [''DAB_ON''] (Some 0) =
     Inr \<lparr>val_Sh = PyFloat 0, val_kc = PyFloat 0, output_sh = ''0.00'',
          output_kc = ''0.00e+00'', output_interpretacion = Advertencia\<rparr>
   \<and> actualizar_resultados ''gota'' 5000 0.6 [''DAB_ON''] (Some (- 1)) =
     Inr \<lparr>val_Sh = PyFloat 0, val_kc = PyFloat 0, output_sh = ''0.00'',
          output_kc = ''0.00e+00'', output_interpretacion = Advertencia\<rparr>"
  using actualizar_resultados_sin_DAB [of "[]" "Some (1 / 10 ^ 9)" "''esfera''" 1000 500]
    actualizar_resultados_sin_DAB [of "[''DAB_ON'']" None "''tubo''" 100 3000]
    actualizar_resultados_sin_DAB [of "[''DAB_ON'']" "Some 0" "''placa''" 10000 1]
    actualizar_resultados_sin_DAB [of "[''DAB_ON'']" "Some (- 1)" "''gota''" 5000 "0.6"]
  by simp

text \<open>
  Past the guard the callback returns whenever the Sherwood number is a float, with the
  three statements of the interpretation chosen by the thresholds; on a complex Sherwood
  number the comparison \<open>Sh > 1000\<close> raises.
\<close>

lemma actualizar_resultados_float:
  assumes "''DAB_ON'' \<in> set checklist_dab" and "0 < d"
    and "calcular_sherwood geometria Rey Sc True = PyFloat s"
  shows "actualizar_resultados geometria Rey Sc checklist_dab (Some d) =
     Inr (formatear (PyFloat s) (coeficiente (PyFloat s) d)
       (Lista
         [if 5000 < Rey then Re_alto (fmt_f 0 Rey)
          else if Rey < 500 then Re_bajo (fmt_f 0 Rey) else Re_moderado (fmt_f 0 Rey),
          if 1000 < Sc then Sc_alto (fmt_f 0 Sc)
          else if Sc < 1 then Sc_bajo (fmt_f 1 Sc) else Sc_moderado (fmt_f 1 Sc),
          Combinacion_actual
            (if 1000 < s \<and> 5000 < Rey then Conveccion_forzada_dominante
             else if s < 100 \<and> 1000 < Sc then Difusion_lenta_dominante
             else Transferencia_combinada)
            (capitalize geometria)]))"
  using assms by (simp add: actualizar_resultados_def Let_def)
















section \<open>Bounds on square and cube roots\<close>

lemma cube_powr_third: "0 < y \<Longrightarrow> (y ^ 3) powr (1 / 3) = (y :: real)"
proof -
  assume y: "0 < y"
  then have "y ^ 3 = y powr 3" by simp
  then have "(y ^ 3) powr (1 / 3) = (y powr 3) powr (1 / 3)" by simp
  also have "\<dots> = y powr 1" by (simp only: powr_powr) simp
  finally show ?thesis using y by simp
qed

lemma cbrt_less: "0 \<le> x \<Longrightarrow> 0 < y \<Longrightarrow> x < y ^ 3 \<Longrightarrow> x powr (1 / 3) < (y :: real)"
  using powr_less_mono2 [of "1 / 3" x "y ^ 3"] by (simp add: cube_powr_third)

lemma cbrt_greater: "0 < y \<Longrightarrow> y ^ 3 < x \<Longrightarrow> (y :: real) < x powr (1 / 3)"
  using powr_less_mono2 [of "1 / 3" "y ^ 3" x] by (simp add: cube_powr_third)

lemma sqrt_less: "0 \<le> x \<Longrightarrow> 0 \<le> y \<Longrightarrow> x < y\<^sup>2 \<Longrightarrow> x powr (1 / 2) < (y :: real)"
  using real_less_lsqrt [of y x] by (simp add: powr_half_sqrt)

lemma sqrt_greater: "0 \<le> x \<Longrightarrow> y\<^sup>2 < x \<Longrightarrow> (y :: real) < x powr (1 / 2)"
  using real_less_rsqrt [of y x] by (simp add: powr_half_sqrt)

lemma sqrt_1000: "31.6227 < (1000 :: real) powr (1 / 2) \<and> (1000 :: real) powr (1 / 2) < 31.6228"
  using sqrt_less [of 1000 "31.6228"] sqrt_greater [of 1000 "31.6227"]
  by (simp add: power2_eq_square)

lemma cbrt_500: "7.937 < (500 :: real) powr (1 / 3) \<and> (500 :: real) powr (1 / 3) < 7.93701"
  using cbrt_less [of 500 "7.93701"] cbrt_greater [of "7.937" 500]
  by (simp add: power3_eq_cube)

lemma esfera_1000_500_cotas:
  fixes v :: real
  assumes "v = 2.0 + 0.6 * 1000 powr 0.5 * 500 powr (1/3)"
  shows "152.585 < v" and "v < 152.595"
proof -
  define a where "a = (1000 :: real) powr (1 / 2)"
  define b where "b = (500 :: real) powr (1 / 3)"
  have a: "31.6227 < a" "a < 31.6228" using sqrt_1000 by (simp_all add: a_def)
  have b: "7.937 < b" "b < 7.93701" using cbrt_500 by (simp_all add: b_def)
  have v: "v = 2 + 0.6 * (a * b)" by (simp add: assms a_def b_def)
  have "31.6227 * 7.937 < a * b"
    using a(1) b(1) by (intro mult_strict_mono) simp_all
  then show "152.585 < v" unfolding v by simp
  have "a * b < 31.6228 * 7.93701"
    using a b by (intro mult_strict_mono) simp_all
  then show "v < 152.595" unfolding v by simp
qed

section \<open>The interpretation\<close>

lemmas fmt_eval = fmt_f_def fixed_digits_def round_half_even_def zfill_def str_nat.simps digit_char_def

lemmas cap_eval = to_upper_def to_lower_def upper_case_def lower_case_def

lemma esfera_5001:
  assumes "calcular_sherwood ''esfera'' 5001 1 True = PyFloat s"
  shows "s < 1000"
proof -
  have "(5001 :: real) powr (1 / 2) < 100" using sqrt_less [of 5001 100] by simp
  then show ?thesis using assms by (simp add: calcular_sherwood_def py_pow_def)
qed

lemma tubo_100_2000:
  assumes "calcular_sherwood ''tubo'' 100 2000 True = PyFloat s"
  shows "s < 100"
proof -
  define a where "a = (100 :: real) powr (4 / 5)"
  define b where "b = (2000 :: real) powr (1 / 3)"
  have "a \<le> 100 powr 1" unfolding a_def by (intro powr_mono) simp_all
  then have a: "a \<le> 100" by simp
  have b: "b < 13" unfolding b_def using cbrt_less [of 2000 13] by simp
  have b0: "0 \<le> b" by (simp add: b_def)
  have "a * b \<le> 100 * b" using a b0 by (intro mult_right_mono) simp_all
  also have "\<dots> < 100 * 13" using b by simp
  finally have ab: "a * b < 1300" by simp
  have "s = 0.023 * (a * b)"
    using assms by (simp add: calcular_sherwood_def py_pow_def a_def b_def)
  then show ?thesis using ab by simp
qed

lemma lecho_10000_1000:
  assumes "calcular_sherwood ''lecho empacado'' 10000 1000 True = PyFloat s"
  shows "1000 < s"
proof -
  define a where "a = (10000 :: real) powr (3 / 5)"
  have "(10000 :: real) powr (1 / 2) \<le> a" unfolding a_def by (intro powr_mono) simp_all
  moreover have "99 < (10000 :: real) powr (1 / 2)" using sqrt_greater [of 10000 99] by simp
  ultimately have a: "99 < a" by simp
  have b: "(1000 :: real) powr (1 / 3) = 10" using cube_powr_third [of 10] by simp
  have "s = 1.15 * a * 10"
    using assms by (simp add: calcular_sherwood_def py_pow_def a_def b)
  then show ?thesis using a by simp
qed

lemma es_float:
  "0 \<le> Rey \<Longrightarrow> 0 \<le> Sc \<Longrightarrow> \<exists>s. calcular_sherwood g Rey Sc True = PyFloat s"
  using calcular_sherwood_float [of Rey Sc g] by blast

text \<open>
  Claim C5: the interpretation is a list of three statements chosen in order by strict
  thresholds: the flow regime by \<open>Re > 5000\<close>, else \<open>Re < 500\<close>, else transitional; the
  diffusion regime by \<open>Sc > 1000\<close>, else \<open>Sc < 1\<close>, else moderate; the combination by
  \<open>Sh > 1000 and Re > 5000\<close>, else \<open>Sh < 100 and Sc > 1000\<close>, else combined, and this
  third statement carries the geometry's name, capitalized. So a Reynolds number of 5000
  is transitional and one of 5001 is turbulent.
\<close>

theorem interpretacion_por_umbrales:
  assumes "''DAB_ON'' \<in> set checklist_dab" and "0 < d"
    and "calcular_sherwood geometria Rey Sc True = PyFloat s"
  shows "\<exists>r. actualizar_resultados geometria Rey Sc checklist_dab (Some d) = Inr r
     \<and> output_interpretacion r = Lista
         [if 5000 < Rey then Re_alto (fmt_f 0 Rey)
          else if Rey < 500 then Re_bajo (fmt_f 0 Rey) else Re_moderado (fmt_f 0 Rey),
          if 1000 < Sc then Sc_alto (fmt_f 0 Sc)
          else if Sc < 1 then Sc_bajo (fmt_f 1 Sc) else Sc_moderado (fmt_f 1 Sc),
          Combinacion_actual
            (if 1000 < s \<and> 5000 < Rey then Conveccion_forzada_dominante
             else if s < 100 \<and> 1000 < Sc then Difusion_lenta_dominante
             else Transferencia_combinada)
            (capitalize geometria)]"
  unfolding actualizar_resultados_float [OF assms]
  by (simp add: formatear_def)

theorem interpretacion_por_umbrales_witness:
  "(\<exists>r. actualizar_resultados ''esfera'' 5000 1 [''DAB_ON''] (Some (1 / 10 ^ 9)) = Inr r
      \<and> output_interpretacion r = Lista
           [Re_moderado ''5000'', Sc_moderado ''1.0'',
            Combinacion_actual Transferencia_combinada ''Esfera''])
   \<and> (\<exists>r. actualizar_resultados ''esfera'' 5001 1 [''DAB_ON''] (Some (1 / 10 ^ 9)) = Inr r
      \<and> output_interpretacion r = Lista
           [Re_alto ''5001'', Sc_moderado ''1.0'',
            Combinacion_actual Transferencia_combinada ''Esfera''])
   \<and> (\<exists>r. actualizar_resultados ''tubo'' 100 2000 [''DAB_ON''] (Some (1 / 10 ^ 9)) = Inr r
      \<and> output_interpretacion r = Lista
           [Re_bajo ''100'', Sc_alto ''2000'',
            Combinacion_actual Difusion_lenta_dominante ''Tubo''])
   \<and> (\<exists>r. actualizar_resultados ''lecho empacado'' 10000 1000 [''DAB_ON''] (Some (1 / 10 ^ 9)) = Inr r
      \<and> output_interpretacion r = Lista
           [Re_alto ''10000'', Sc_moderado ''1000.0'',
            Combinacion_actual Conveccion_forzada_dominante ''Lecho empacado''])"
proof (intro conjI)
  have g: "''DAB_ON'' \<in> set [''DAB_ON'']" by simp
  have d: "(0 :: real) < 1 / 10 ^ 9" by simp
  obtain s1 where s1: "calcular_sherwood ''esfera'' 5000 1 True = PyFloat s1"
    using es_float [of 5000 1 "''esfera''"] by auto
  show "\<exists>r. actualizar_resultados ''esfera'' 5000 1 [''DAB_ON''] (Some (1 / 10 ^ 9)) = Inr r
      \<and> output_interpretacion r = Lista
           [Re_moderado ''5000'', Sc_moderado ''1.0'',
            Combinacion_actual Transferencia_combinada ''Esfera'']"
    using interpretacion_por_umbrales [OF g d s1] by (simp add: fmt_eval cap_eval)
  obtain s2 where s2: "calcular_sherwood ''esfera'' 5001 1 True = PyFloat s2"
    using es_float [of 5001 1 "''esfera''"] by auto
  show "\<exists>r. actualizar_resultados ''esfera'' 5001 1 [''DAB_ON''] (Some (1 / 10 ^ 9)) = Inr r
      \<and> output_interpretacion r = Lista
           [Re_alto ''5001'', Sc_moderado ''1.0'',
            Combinacion_actual Transferencia_combinada ''Esfera'']"
    using interpretacion_por_umbrales [OF g d s2] esfera_5001 [OF s2]
    by (simp add: fmt_eval cap_eval)
  obtain s3 where s3: "calcular_sherwood ''tubo'' 100 2000 True = PyFloat s3"
    using es_float [of 100 2000 "''tubo''"] by auto
  show "\<exists>r. actualizar_resultados ''tubo'' 100 2000 [''DAB_ON''] (Some (1 / 10 ^ 9)) = Inr r
      \<and> output_interpretacion r = Lista
           [Re_bajo ''100'', Sc_alto ''2000'',
            Combinacion_actual Difusion_lenta_dominante ''Tubo'']"
    using interpretacion_por_umbrales [OF g d s3] tubo_100_2000 [OF s3]
    by (simp add: fmt_eval cap_eval)
  obtain s4 where s4: "calcular_sherwood ''lecho empacado'' 10000 1000 True = PyFloat s4"
    using es_float [of 10000 1000 "''lecho empacado''"] by auto
  show "\<exists>r. actualizar_resultados ''lecho empacado'' 10000 1000 [''DAB_ON''] (Some (1 / 10 ^ 9)) = Inr r
      \<and> output_interpretacion r = Lista
           [Re_alto ''10000'', Sc_moderado ''1000.0'',
            Combinacion_actual Conveccion_forzada_dominante ''Lecho empacado'']"
    using interpretacion_por_umbrales [OF g d s4] lecho_10000_1000 [OF s4]
    by (simp add: fmt_eval cap_eval)
qed

section \<open>The sphere at Re = 1000 and Sc = 500\<close>

lemma esfera_1000_500:
  "calcular_sherwood ''esfera'' 1000 500 True =
     PyFloat (2.0 + 0.6 * 1000 powr 0.5 * 500 powr (1/3))"
  by (simp add: calcular_sherwood_def py_pow_def)

text \<open>
  Claim C6 says that the sphere correlation at \<open>Re = 1000\<close>, \<open>Sc = 500\<close> is about 163.33.
  The value the function returns is more than 10 away from it.
\<close>

theorem esfera_1000_500_no_163:
  "\<not> (\<exists>s. calcular_sherwood ''esfera'' 1000 500 True = PyFloat s \<and> \<bar>s - 163.33\<bar> \<le> 10)"
proof
  assume "\<exists>s. calcular_sherwood ''esfera'' 1000 500 True = PyFloat s \<and> \<bar>s - 163.33\<bar> \<le> 10"
  then obtain s where s: "calcular_sherwood ''esfera'' 1000 500 True = PyFloat s"
    and near: "\<bar>s - 163.33\<bar> \<le> 10" by blast
  from s have "s = 2.0 + 0.6 * 1000 powr 0.5 * 500 powr (1/3)"
    by (simp only: esfera_1000_500 pynum.inject)
  then have "s < 152.595" by (rule esfera_1000_500_cotas)
  with near show False by simp
qed

text \<open>
  Claim C6, amended: at \<open>Re = 1000\<close>, \<open>Sc = 500\<close> the sphere correlation returns
  \<open>2.0 + 0.6 * 1000 ** 0.5 * 500 ** (1/3)\<close>, which is 152.59 to two decimals.
\<close>

theorem esfera_1000_500_valor:
  "\<exists>s. calcular_sherwood ''esfera'' 1000 500 True = PyFloat s
       \<and> s = 2.0 + 0.6 * 1000 powr 0.5 * 500 powr (1/3)
       \<and> \<bar>s - 152.59\<bar> < 0.005"
proof -
  define s :: real where "s = 2.0 + 0.6 * 1000 powr 0.5 * 500 powr (1/3)"
  have "152.585 < s" and "s < 152.595"
    using esfera_1000_500_cotas [OF s_def] by blast+
  then have "\<bar>s - 152.59\<bar> < 0.005" unfolding abs_less_iff by simp
  then show ?thesis using esfera_1000_500 s_def by blast
qed

section \<open>Properties of the plot callback\<close>

text \<open>The conversion raises nothing but \<open>ValueError\<close>, which the callback catches.\<close>

lemma py_float_error: "py_float s = Inl e \<Longrightarrow> e = ValueError"
  by (auto simp add: py_float_def Let_def split: option.splits prod.splits if_splits)

lemma convertir_fallo:
  assumes "isl (py_float Sh_str) \<or> isl (py_float kc_str)"
  shows "convertir Sh_str kc_str = Inr (Finite 1, Finite (1 / 10 ^ 10))"
proof (cases "py_float Sh_str")
  case (Inl e)
  then show ?thesis using py_float_error [OF Inl] by (simp add: convertir_def)
next
  case (Inr x)
  with assms obtain e where e: "py_float kc_str = Inl e" by (auto simp add: isl_def)
  then show ?thesis using py_float_error [OF e] Inr by (simp add: convertir_def)
qed

lemma convertir_exito:
  "py_float Sh_str = Inr x \<Longrightarrow> py_float kc_str = Inr y \<Longrightarrow> convertir Sh_str kc_str = Inr (x, y)"
  by (simp add: convertir_def)

lemma convertir_total: "\<exists>p. convertir Sh_str kc_str = Inr p"
proof (cases "isl (py_float Sh_str) \<or> isl (py_float kc_str)")
  case True
  then show ?thesis using convertir_fallo by blast
next
  case False
  then obtain x y where "py_float Sh_str = Inr x" "py_float kc_str = Inr y"
    by (cases "py_float Sh_str"; cases "py_float kc_str") auto
  then show ?thesis using convertir_exito by blast
qed

lemma actualizar_grafica_de_punto:
  assumes "convertir Sh_str kc_str = Inr (Sh, kc)"
  shows "actualizar_grafica Sh_str kc_str =
     Inr \<lparr>punto_x = Sh, punto_y = kc,
          rango_x = (Finite 0,
            if pf_less (Finite 0) Sh
            then py_max (Finite 4.3) (pf_add (np_log10 Sh) (Finite 0.5)) else Finite 4.3),
          rango_y = (Finite (- 12),
            if pf_less (Finite 0) kc
            then py_max (Finite (- 3)) (pf_add (np_log10 kc) (Finite 0.5)) else Finite (- 3))\<rparr>"
  using assms by (simp add: actualizar_grafica_def Let_def)

text \<open>
  Claim C7: if either display string fails to parse as a number, the point plotted is the
  reference point (Sherwood 1.0, coefficient 1e-10); and the callback raises no error,
  whatever the two strings are.
\<close>

theorem actualizar_grafica_punto_seguro:
  "(\<exists>f. actualizar_grafica Sh_str kc_str = Inr f)
   \<and> (isl (py_float Sh_str) \<or> isl (py_float kc_str) \<longrightarrow>
        (\<exists>f. actualizar_grafica Sh_str kc_str = Inr f
             \<and> punto_x f = Finite 1.0 \<and> punto_y f = Finite (1 / 10 ^ 10)))"
proof (intro conjI impI)
  obtain Sh kc where "convertir Sh_str kc_str = Inr (Sh, kc)"
    using convertir_total [of Sh_str kc_str] by auto
  then show "\<exists>f. actualizar_grafica Sh_str kc_str = Inr f"
    using actualizar_grafica_de_punto by blast
next
  assume "isl (py_float Sh_str) \<or> isl (py_float kc_str)"
  then have "convertir Sh_str kc_str = Inr (Finite 1, Finite (1 / 10 ^ 10))"
    by (rule convertir_fallo)
  then show "\<exists>f. actualizar_grafica Sh_str kc_str = Inr f
      \<and> punto_x f = Finite 1.0 \<and> punto_y f = Finite (1 / 10 ^ 10)"
    by (simp add: actualizar_grafica_de_punto)
qed

lemmas float_eval = py_float_def py_strip_def is_space_def is_digit_def to_lower_def
  upper_case_def lower_case_def parse_decimal_def nat_of_digits_def digit_val_def

lemma py_float_abc: "py_float ''abc'' = Inl ValueError"
  by (simp add: float_eval)

lemma py_float_vacio: "py_float '''' = Inl ValueError"
  by (simp add: float_eval)

lemma py_float_152_59: "py_float ''152.59'' = Inr (Finite 152.59)"
  by (simp add: float_eval)

theorem actualizar_grafica_punto_seguro_witness:
  "isl (py_float ''abc'') \<and> \<not> isl (py_float ''152.59'') \<and> isl (py_float '''')
   \<and> (\<exists>f. actualizar_grafica ''abc'' ''152.59'' = Inr f
         \<and> punto_x f = Finite 1.0 \<and> punto_y f = Finite (1 / 10 ^ 10))
   \<and> (\<exists>f. actualizar_grafica ''152.59'' '''' = Inr f
         \<and> punto_x f = Finite 1.0 \<and> punto_y f = Finite (1 / 10 ^ 10))"
  using actualizar_grafica_punto_seguro [of "''abc''" "''152.59''"]
    actualizar_grafica_punto_seguro [of "''152.59''" "''''"]
  by (simp add: py_float_abc py_float_vacio py_float_152_59)

text \<open>The axis ranges in terms of the point plotted.\<close>

lemma actualizar_grafica_Inr:
  assumes "actualizar_grafica Sh_str kc_str = Inr f"
  shows "rango_x f = (Finite 0,
            if pf_less (Finite 0) (punto_x f)
            then py_max (Finite 4.3) (pf_add (np_log10 (punto_x f)) (Finite 0.5))
            else Finite 4.3)"
    and "rango_y f = (Finite (- 12),
            if pf_less (Finite 0) (punto_y f)
            then py_max (Finite (- 3)) (pf_add (np_log10 (punto_y f)) (Finite 0.5))
            else Finite (- 3))"
proof -
  obtain Sh kc where c: "convertir Sh_str kc_str = Inr (Sh, kc)"
    using convertir_total [of Sh_str kc_str] by auto
  from assms show "rango_x f = (Finite 0,
            if pf_less (Finite 0) (punto_x f)
            then py_max (Finite 4.3) (pf_add (np_log10 (punto_x f)) (Finite 0.5))
            else Finite 4.3)"
    unfolding actualizar_grafica_de_punto [OF c] by auto
  from assms show "rango_y f = (Finite (- 12),
            if pf_less (Finite 0) (punto_y f)
            then py_max (Finite (- 3)) (pf_add (np_log10 (punto_y f)) (Finite 0.5))
            else Finite (- 3))"
    unfolding actualizar_grafica_de_punto [OF c] by auto
qed

text \<open>The upper bound of an axis, as an exponent, for a finite coordinate.\<close>

lemma limite_finito:
  "(if pf_less (Finite 0) (Finite v)
    then py_max (Finite d) (pf_add (np_log10 (Finite v)) (Finite 0.5)) else Finite d) =
   Finite (if 0 < v then max d (log 10 v + 0.5) else d)"
  by (auto simp add: py_max_def max_def)

lemma limite_no_menor:
  "\<not> pf_less (if pf_less (Finite 0) v
    then py_max (Finite d) (pf_add (np_log10 v) (Finite 0.5)) else Finite d) (Finite d)"
  by (cases v) (auto simp add: py_max_def)

lemma limite_monotono:
  assumes "v \<le> w"
  shows "(if 0 < v then max d (log 10 v + 0.5) else d)
       \<le> (if 0 < w then max d (log 10 w + 0.5) else (d :: real))"
proof (cases "0 < v")
  case True
  then have w: "0 < w" and l: "log 10 v \<le> log 10 w" using assms by simp_all
  have "max d (log 10 v + 0.5) \<le> max d (log 10 w + 0.5)"
    by (rule max.mono [OF order_refl]) (rule add_right_mono [OF l])
  then show ?thesis using True w by (simp only: if_True)
next
  case False
  then show ?thesis by (auto simp add: max_def)
qed

lemma py_max_Finite: "py_max (Finite a) (Finite b) = Finite (max a b)"
  by (simp add: py_max_def max_def)

text \<open>
  Claim C8: the upper bound of each axis is \<open>max(default, log10(value) + 0.5)\<close> when the
  value is positive, with defaults 4.3 and -3 (as exponents of 10); the lower bounds stay
  at 0 and -12; no upper bound is ever below its default; and a greater Sherwood number
  or coefficient never gives a lower upper bound.
\<close>

theorem rangos_de_la_grafica:
  assumes "actualizar_grafica Sh_str kc_str = Inr f"
    and "actualizar_grafica Sh_str' kc_str' = Inr f'"
  shows "fst (rango_x f) = Finite 0 \<and> fst (rango_y f) = Finite (- 12)
    \<and> (\<forall>s. punto_x f = Finite s \<and> 0 < s \<longrightarrow>
           snd (rango_x f) = Finite (max 4.3 (log 10 s + 0.5)))
    \<and> (\<forall>k. punto_y f = Finite k \<and> 0 < k \<longrightarrow>
           snd (rango_y f) = Finite (max (- 3) (log 10 k + 0.5)))
    \<and> \<not> pf_less (snd (rango_x f)) (Finite 4.3)
    \<and> \<not> pf_less (snd (rango_y f)) (Finite (- 3))
    \<and> (\<forall>s s'. punto_x f = Finite s \<and> punto_x f' = Finite s' \<and> s \<le> s' \<longrightarrow>
           (\<exists>u u'. snd (rango_x f) = Finite u \<and> snd (rango_x f') = Finite u' \<and> u \<le> u'))
    \<and> (\<forall>k k'. punto_y f = Finite k \<and> punto_y f' = Finite k' \<and> k \<le> k' \<longrightarrow>
           (\<exists>u u'. snd (rango_y f) = Finite u \<and> snd (rango_y f') = Finite u' \<and> u \<le> u'))"
proof -
  note r = actualizar_grafica_Inr [OF assms(1)]
  note r' = actualizar_grafica_Inr [OF assms(2)]
  have 1: "fst (rango_x f) = Finite 0" and 2: "fst (rango_y f) = Finite (- 12)"
    by (simp_all add: r)
  have 3: "\<forall>s. punto_x f = Finite s \<and> 0 < s \<longrightarrow>
      snd (rango_x f) = Finite (max 4.3 (log 10 s + 0.5))"
    by (simp add: r(1) py_max_Finite)
  have 4: "\<forall>k. punto_y f = Finite k \<and> 0 < k \<longrightarrow>
      snd (rango_y f) = Finite (max (- 3) (log 10 k + 0.5))"
    by (simp add: r(2) py_max_Finite)
  have 5: "\<not> pf_less (snd (rango_x f)) (Finite 4.3)"
    unfolding r(1) snd_conv by (rule limite_no_menor)
  have 6: "\<not> pf_less (snd (rango_y f)) (Finite (- 3))"
    unfolding r(2) snd_conv by (rule limite_no_menor)
  have 7: "\<forall>s s'. punto_x f = Finite s \<and> punto_x f' = Finite s' \<and> s \<le> s' \<longrightarrow>
      (\<exists>u u'. snd (rango_x f) = Finite u \<and> snd (rango_x f') = Finite u' \<and> u \<le> u')"
  proof (intro allI impI)
    fix s s' assume h: "punto_x f = Finite s \<and> punto_x f' = Finite s' \<and> s \<le> s'"
    then have "snd (rango_x f) = Finite (if 0 < s then max 4.3 (log 10 s + 0.5) else 4.3)"
      and "snd (rango_x f') = Finite (if 0 < s' then max 4.3 (log 10 s' + 0.5) else 4.3)"
      unfolding r(1) r'(1) snd_conv by (simp_all only: limite_finito)
    then show "\<exists>u u'. snd (rango_x f) = Finite u \<and> snd (rango_x f') = Finite u' \<and> u \<le> u'"
      using limite_monotono [of s s' "4.3"] h by blast
  qed
  have 8: "\<forall>k k'. punto_y f = Finite k \<and> punto_y f' = Finite k' \<and> k \<le> k' \<longrightarrow>
      (\<exists>u u'. snd (rango_y f) = Finite u \<and> snd (rango_y f') = Finite u' \<and> u \<le> u')"
  proof (intro allI impI)
    fix k k' assume h: "punto_y f = Finite k \<and> punto_y f' = Finite k' \<and> k \<le> k'"
    then have "snd (rango_y f) = Finite (if 0 < k then max (- 3) (log 10 k + 0.5) else - 3)"
      and "snd (rango_y f') = Finite (if 0 < k' then max (- 3) (log 10 k' + 0.5) else - 3)"
      unfolding r(2) r'(2) snd_conv by (simp_all only: limite_finito)
    then show "\<exists>u u'. snd (rango_y f) = Finite u \<and> snd (rango_y f') = Finite u' \<and> u \<le> u'"
      using limite_monotono [of k k' "- 3"] h by blast
  qed
  from 1 2 3 4 5 6 7 8 show ?thesis by blast
qed

lemma py_float_0_00: "py_float ''0.00'' = Inr (Finite 0)"
  by (simp add: float_eval)

lemma py_float_0_00e00: "py_float ''0.00e+00'' = Inr (Finite 0)"
  by (simp add: float_eval)

lemma py_float_1e5: "py_float ''100000.00'' = Inr (Finite (10 ^ 5))"
  by (simp add: float_eval)

lemma py_float_1e6: "py_float ''1000000.00'' = Inr (Finite (10 ^ 6))"
  by (simp add: float_eval)

lemma py_float_1e_1: "py_float ''1.00e-01'' = Inr (Finite (1 / 10))"
  by (simp add: float_eval)

lemma py_float_1e0: "py_float ''1.00e+00'' = Inr (Finite 1)"
  by (simp add: float_eval)

lemma grafica_cero:
  "actualizar_grafica ''0.00'' ''0.00e+00'' =
     Inr \<lparr>punto_x = Finite 0, punto_y = Finite 0,
          rango_x = (Finite 0, Finite 4.3), rango_y = (Finite (- 12), Finite (- 3))\<rparr>"
  using actualizar_grafica_de_punto [OF convertir_exito [OF py_float_0_00 py_float_0_00e00]]
  by simp

theorem rangos_de_la_grafica_witness:
  "\<exists>f f'. actualizar_grafica ''100000.00'' ''1.00e-01'' = Inr f
     \<and> actualizar_grafica ''1000000.00'' ''1.00e+00'' = Inr f'
     \<and> punto_x f = Finite (10 ^ 5) \<and> punto_y f = Finite (1 / 10)
     \<and> punto_x f' = Finite (10 ^ 6) \<and> punto_y f' = Finite 1
     \<and> rango_x f = (Finite 0, Finite 5.5) \<and> rango_y f = (Finite (- 12), Finite (- 0.5))
     \<and> rango_x f' = (Finite 0, Finite 6.5) \<and> rango_y f' = (Finite (- 12), Finite 0.5)"
proof -
  obtain f where f: "actualizar_grafica ''100000.00'' ''1.00e-01'' = Inr f"
    and px: "punto_x f = Finite (10 ^ 5)" and py: "punto_y f = Finite (1 / 10)"
    using actualizar_grafica_de_punto [OF convertir_exito [OF py_float_1e5 py_float_1e_1]]
    by simp
  obtain f' where f': "actualizar_grafica ''1000000.00'' ''1.00e+00'' = Inr f'"
    and px': "punto_x f' = Finite (10 ^ 6)" and py': "punto_y f' = Finite 1"
    using actualizar_grafica_de_punto [OF convertir_exito [OF py_float_1e6 py_float_1e0]]
    by simp
  have l5: "log 10 (100000 :: real) = 5" and l6: "log 10 (1000000 :: real) = 6"
    using log_pow_cancel [of 10 5] log_pow_cancel [of 10 6] by simp_all
  have l1: "log 10 (1 / 10 :: real) = - 1" by (simp add: log_divide)
  note R = rangos_de_la_grafica [OF f f']
  note R' = rangos_de_la_grafica [OF f' f]
  have pos: "(0 :: real) < 10 ^ 5" "(0 :: real) < 1 / 10" "(0 :: real) < 10 ^ 6" "(0 :: real) < 1"
    by simp_all
  have "snd (rango_x f) = Finite (max 4.3 (log 10 (10 ^ 5) + 0.5))"
    using R px pos(1) by blast
  moreover have "fst (rango_x f) = Finite 0" using R by blast
  ultimately have 1: "rango_x f = (Finite 0, Finite 5.5)"
    by (simp add: prod_eq_iff l5)
  have "snd (rango_y f) = Finite (max (- 3) (log 10 (1 / 10) + 0.5))"
    using R py pos(2) by blast
  moreover have "fst (rango_y f) = Finite (- 12)" using R by blast
  ultimately have 2: "rango_y f = (Finite (- 12), Finite (- 0.5))"
    by (simp add: prod_eq_iff l1)
  have "snd (rango_x f') = Finite (max 4.3 (log 10 (10 ^ 6) + 0.5))"
    using R' px' pos(3) by blast
  moreover have "fst (rango_x f') = Finite 0" using R' by blast
  ultimately have 3: "rango_x f' = (Finite 0, Finite 6.5)"
    by (simp add: prod_eq_iff l6)
  have "snd (rango_y f') = Finite (max (- 3) (log 10 1 + 0.5))"
    using R' py' pos(4) by blast
  moreover have "fst (rango_y f') = Finite (- 12)" using R' by blast
  ultimately have 4: "rango_y f' = (Finite (- 12), Finite 0.5)"
    by (simp add: prod_eq_iff)
  from 1 2 3 4 show ?thesis using f f' px py px' py' by blast
qed

text \<open>A finite coordinate is below the upper end of its axis.\<close>

lemma punto_bajo_el_maximo:
  assumes "actualizar_grafica Sh_str kc_str = Inr f"
  shows "punto_x f = Finite s \<Longrightarrow> \<exists>u. snd (rango_x f) = Finite u \<and> s < 10 powr u"
    and "punto_y f = Finite k \<Longrightarrow> \<exists>u. snd (rango_y f) = Finite u \<and> k < 10 powr u"
proof -
  have *: "v < 10 powr (if 0 < v then max d (log 10 v + 0.5) else d)" for v d :: real
  proof (cases "0 < v")
    case True
    have "v = 10 powr (log 10 v)" using True by simp
    also have "\<dots> < 10 powr (log 10 v + 0.5)" by (simp del: powr_log_cancel)
    also have "\<dots> \<le> 10 powr (max d (log 10 v + 0.5))" by simp
    finally show ?thesis using True by simp
  next
    case False
    then have "v \<le> 0" by simp
    also have "(0 :: real) < 10 powr d" by simp
    finally show ?thesis using False by simp
  qed
  note r = actualizar_grafica_Inr [OF assms]
  show "punto_x f = Finite s \<Longrightarrow> \<exists>u. snd (rango_x f) = Finite u \<and> s < 10 powr u"
    using * [of s "4.3"] unfolding r(1) snd_conv by (simp only: limite_finito) blast
  show "punto_y f = Finite k \<Longrightarrow> \<exists>u. snd (rango_y f) = Finite u \<and> k < 10 powr u"
    using * [of k "- 3"] unfolding r(2) snd_conv by (simp only: limite_finito) blast
qed

lemma potencia_menos_12: "(10 :: real) powr (- 12) = 1 / 10 ^ 12"
  using powr_realpow [of 10 12] by (simp add: powr_minus field_simps)

lemma py_float_0_77: "py_float ''0.77'' = Inr (Finite 0.77)"
  by (simp add: float_eval)

lemma py_float_7_72e_14: "py_float ''7.72e-14'' = Inr (Finite (772 / 10 ^ 16))"
  by (simp add: float_eval)

lemma log10_menor: "0 < x \<Longrightarrow> x < 1 / 10 ^ 4 \<Longrightarrow> log 10 x + 0.5 < (- 3 :: real)"
proof -
  assume x: "0 < x" "x < 1 / 10 ^ 4"
  have "(10 :: real) powr (- 4) = 1 / 10 ^ 4"
    using powr_realpow [of 10 4] by (simp add: powr_minus field_simps)
  then have "x < 10 powr (- 4)" using x(2) by simp
  then have "log 10 x < - 4" using x(1) by (simp only: log_less_iff) 
  then show ?thesis by simp
qed

lemma log10_menor_1: "0 < x \<Longrightarrow> x \<le> 1 \<Longrightarrow> log 10 x + 0.5 \<le> (4.3 :: real)"
proof -
  assume "0 < x" "x \<le> 1"
  then have "log 10 x \<le> 0" by simp
  moreover have "(0 :: real) + 0.5 \<le> 4.3" by simp
  ultimately show ?thesis by linarith
qed

lemma grafica_0_77:
  "actualizar_grafica ''0.77'' ''7.72e-14'' =
     Inr \<lparr>punto_x = Finite 0.77, punto_y = Finite (772 / 10 ^ 16),
          rango_x = (Finite 0, Finite 4.3), rango_y = (Finite (- 12), Finite (- 3))\<rparr>"
proof -
  have 1: "log 10 (0.77 :: real) + 0.5 \<le> 4.3"
    by (rule log10_menor_1) simp_all
  have 2: "log 10 (772 / 10 ^ 16 :: real) + 0.5 < - 3"
    by (rule log10_menor) simp_all
  have x: "(if pf_less (Finite 0) (Finite 0.77)
            then py_max (Finite 4.3) (pf_add (np_log10 (Finite 0.77)) (Finite 0.5))
            else Finite 4.3) = Finite 4.3"
    unfolding limite_finito using 1 by (simp add: max_def)
  have y: "(if pf_less (Finite 0) (Finite (772 / 10 ^ 16))
            then py_max (Finite (- 3)) (pf_add (np_log10 (Finite (772 / 10 ^ 16))) (Finite 0.5))
            else Finite (- 3)) = Finite (- 3)"
    unfolding limite_finito using 2 by (simp add: max_def)
  show ?thesis
    unfolding actualizar_grafica_de_punto [OF convertir_exito [OF py_float_0_77 py_float_7_72e_14]]
    unfolding x y by simp
qed

text \<open>
  Claim C9: the point plotted is to lie inside the axis ranges computed, whatever the two
  strings are. The code does not keep it there. Only the upper ends are moved and the
  lower ends are fixed, so a small value falls below them: the strings \<open>0.77\<close> and
  \<open>7.72e-14\<close> plot a point below \<open>10 ** 0\<close> and \<open>10 ** -12\<close>; and \<open>0.00\<close> and
  \<open>0.00e+00\<close>, the strings the results callback returns when its guard fires, parse as
  numbers, so the reference point does not replace them and the point (0, 0) is plotted.
\<close>

theorem punto_fuera_de_los_rangos:
  "(\<exists>f. actualizar_grafica ''0.77'' ''7.72e-14'' = Inr f
      \<and> punto_x f = Finite 0.77 \<and> rango_x f = (Finite 0, Finite 4.3)
      \<and> (0.77 :: real) < 10 powr 0
      \<and> punto_y f = Finite (772 / 10 ^ 16) \<and> rango_y f = (Finite (- 12), Finite (- 3))
      \<and> (772 / 10 ^ 16 :: real) < 10 powr (- 12))
   \<and> (\<exists>f. actualizar_grafica ''0.00'' ''0.00e+00'' = Inr f
      \<and> punto_x f = Finite 0 \<and> rango_x f = (Finite 0, Finite 4.3) \<and> (0 :: real) < 10 powr 0
      \<and> punto_y f = Finite 0 \<and> rango_y f = (Finite (- 12), Finite (- 3))
      \<and> (0 :: real) < 10 powr (- 12))"
  by (simp add: grafica_0_77 grafica_cero potencia_menos_12)

text \<open>
  Claim C10: when the guard of the results callback fires, its two output strings are
  \<open>0.00\<close> and \<open>0.00e+00\<close>; both parse as numbers, so the plot callback does not use the
  reference point: it plots (0.0, 0.0) and leaves both upper bounds at their defaults.
\<close>

theorem sin_DAB_grafica_en_cero:
  assumes "''DAB_ON'' \<notin> set checklist_dab \<or> DAB = None \<or> (\<exists>d. DAB = Some d \<and> d \<le> 0)"
  shows "\<exists>r. actualizar_resultados geometria Rey Sc checklist_dab DAB = Inr r
     \<and> output_sh r = ''0.00'' \<and> output_kc r = ''0.00e+00''
     \<and> py_float (output_sh r) = Inr (Finite 0) \<and> py_float (output_kc r) = Inr (Finite 0)
     \<and> actualizar_grafica (output_sh r) (output_kc r) =
         Inr \<lparr>punto_x = Finite 0, punto_y = Finite 0,
              rango_x = (Finite 0, Finite 4.3), rango_y = (Finite (- 12), Finite (- 3))\<rparr>"
  unfolding guarda_sin_DAB [OF assms]
  by (simp add: py_float_0_00 py_float_0_00e00 grafica_cero)

theorem sin_DAB_grafica_en_cero_witness:
  "(\<exists>r. actualizar_resultados ''esfera'' 1000 500 [] (Some (1 / 10 ^ 9)) = Inr r
      \<and> output_sh r = ''0.00'' \<and> output_kc r = ''0.00e+00''
      \<and> actualizar_grafica (output_sh r) (output_kc r) =
         Inr \<lparr>punto_x = Finite 0, punto_y = Finite 0,
              rango_x = (Finite 0, Finite 4.3), rango_y = (Finite (- 12), Finite (- 3))\<rparr>)
   \<and> (\<exists>r. actualizar_resultados ''tubo'' 100 3000 [''DAB_ON''] None = Inr r
      \<and> actualizar_grafica (output_sh r) (output_kc r) =
         Inr \<lparr>punto_x = Finite 0, punto_y = Finite 0,
              rango_x = (Finite 0, Finite 4.3), rango_y = (Finite (- 12), Finite (- 3))\<rparr>)
   \<and> (\<exists>r. actualizar_resultados ''placa'' 10000 1 [''DAB_ON''] (Some 0) = Inr r
      \<and> actualizar_grafica (output_sh r) (output_kc r) =
         Inr \<lparr>punto_x = Finite 0, punto_y = Finite 0,
              rango_x = (Finite 0, Finite 4.3), rango_y = (Finite (- 12), Finite (- 3))\<rparr>)"
proof -
  have g1: "''DAB_ON'' \<notin> set [] \<or> Some (1 / 10 ^ 9 :: real) = None
      \<or> (\<exists>d. Some (1 / 10 ^ 9 :: real) = Some d \<and> d \<le> 0)" by simp
  have g2: "''DAB_ON'' \<notin> set [''DAB_ON''] \<or> (None :: real option) = None
      \<or> (\<exists>d. (None :: real option) = Some d \<and> d \<le> 0)" by simp
  have g3: "''DAB_ON'' \<notin> set [''DAB_ON''] \<or> Some (0 :: real) = None
      \<or> (\<exists>d. Some (0 :: real) = Some d \<and> d \<le> 0)" by simp
  from sin_DAB_grafica_en_cero [OF g1, of "''esfera''" 1000 500]
    sin_DAB_grafica_en_cero [OF g2, of "''tubo''" 100 3000]
    sin_DAB_grafica_en_cero [OF g3, of "''placa''" 10000 1]
  show ?thesis by blast
qed

end
